theory Spec2Isabelle
  imports Main "HOL-Library.AList"
begin

section \<open>The dynamic-DNS updater of \<open>server.js\<close>\<close>

text \<open>
  The program polls an address-echo service for the host's public IPv4 and IPv6
  address and pushes A and AAAA records to the DNS provider. This theory embeds
  \<open>server.js\<close> function by function. Module-level variables, the log file, the clock
  and the replies of the network are fields of one \<open>world\<close> record that every
  function takes and returns; every outbound request, console line, timer and write
  to the two address variables is appended, in program order, to the world's trace.
\<close>

subsection \<open>Messages and JSON values\<close>

text \<open>
  The message texts of the source are Japanese template literals. Each template is
  one constructor here, carrying the values the template interpolates; the source
  line of the template is given beside it. Console lines carry a bracketed function
  name in front of the same text, which is left out.
\<close>

datatype message =
    MissingEnv "string list"                \<comment> \<open>line 39: the missing keys, joined\<close>
  | ParseFailed                             \<comment> \<open>line 77\<close>
  | LogUpdateFailed                         \<comment> \<open>line 99, console only\<close>
  | LookupFailed string "string option"     \<comment> \<open>line 131: type, record name\<close>
  | CreateOk string string                  \<comment> \<open>line 171: type, address\<close>
  | CreateRejected string                   \<comment> \<open>line 177\<close>
  | CreateThrew string                      \<comment> \<open>line 189\<close>
  | NotFoundCreating string "string option" \<comment> \<open>lines 213 and 217: type, record name\<close>
  | UpdateOk string string                  \<comment> \<open>line 243: type, address\<close>
  | UpdateRejected string                   \<comment> \<open>line 249\<close>
  | UpdateThrew string                      \<comment> \<open>line 261\<close>
  | FetchFailed nat int int                 \<comment> \<open>line 291: version, attempt, retry count\<close>
  | FetchExhausted nat int                  \<comment> \<open>line 303: version, retry count\<close>
  | RetryIn int                             \<comment> \<open>line 317: seconds, console only\<close>
  | NoChange nat                            \<comment> \<open>lines 337 and 357: version\<close>
  | FetchSkipped nat                        \<comment> \<open>lines 342 and 362: version\<close>
  | ServerStarted string                    \<comment> \<open>line 383: port\<close>
  | InitialSkipped string                   \<comment> \<open>line 409: type\<close>

text \<open>
  A JSON value as \<open>JSON.parse\<close> returns it and \<open>JSON.stringify\<close> prints it. \<open>JMsg m\<close>
  is the JSON string whose text is the message \<open>m\<close>. An object keeps its keys in
  insertion order, as a JavaScript object does.
\<close>

datatype json =
    JNull
  | JBool bool
  | JNum int
  | JStr string
  | JMsg message
  | JArr "json list"
  | JObj "(string \<times> json) list"

type_synonym obj = "(string \<times> json) list"

text \<open>JavaScript truthiness, as \<open>!x\<close>, \<open>if (x)\<close> and \<open>x || y\<close> test it.\<close>

fun truthy :: "json \<Rightarrow> bool" where
  "truthy JNull = False"
| "truthy (JBool b) = b"
| "truthy (JNum n) = (n \<noteq> 0)"
| "truthy (JStr s) = (s \<noteq> [])"
| "truthy (JMsg m) = True"
| "truthy (JArr xs) = True"
| "truthy (JObj kv) = True"

text \<open>
  A variable that holds a string, \<open>null\<close> or \<open>undefined\<close> is a \<open>string option\<close>; it is
  truthy when it holds a string that is not empty.
\<close>

fun truthyStr :: "string option \<Rightarrow> bool" where
  "truthyStr None = False"
| "truthyStr (Some s) = (s \<noteq> [])"

text \<open>\<open>{...base, ...data}\<close>: a key of \<open>data\<close> already present is overwritten in place.\<close>

definition spread :: "obj \<Rightarrow> obj \<Rightarrow> obj" where
  "spread base data = foldl (\<lambda>acc kv. AList.update (fst kv) (snd kv) acc) base data"

text \<open>A property whose value is \<open>undefined\<close> is not printed by \<open>JSON.stringify\<close>.\<close>

fun optField :: "string \<Rightarrow> string option \<Rightarrow> obj" where
  "optField k None = []"
| "optField k (Some s) = [(k, JStr s)]"

subsection \<open>The world\<close>

text \<open>
  The log file holds either text that \<open>JSON.parse\<close> rejects (with the message of the
  SyntaxError it raises) or the text of a JSON value.
\<close>

datatype content = Unparseable string | Parsed json

text \<open>
  A rejected axios call: \<open>error.response?.data\<close> and \<open>error.message\<close>. The replies are
  what the code reads from a completed call: for the echo service the \<open>ip\<close> field of
  the body, for the provider's list call the \<open>success\<close> flag and the ids of the
  records in \<open>result\<close>, for a create or update call the \<open>success\<close> flag and the body.
  Any exception raised in the \<open>try\<close> block of a call (transport error, timeout, a
  body without the expected shape) is the \<open>Threw\<close> reply.
\<close>

record axiosError =
  responseData :: "json option"
  errMessage :: string

datatype echoReply = EchoIp "string option" | EchoThrew axiosError
datatype listReply = Listed bool "string list" | ListThrew axiosError
datatype writeReply = Wrote bool json | WriteThrew axiosError

record request =
  httpMethod :: string
  url :: string
  headers :: "(string \<times> string) list"
  params :: obj
  body :: "json option"
  timeout :: "nat option"

datatype stream = Log | Warn | Error

datatype event =
    Request request
  | Console stream message
  | Assign nat "string option"   \<comment> \<open>a write to \<open>currentIPv4\<close> (4) or \<open>currentIPv6\<close> (6)\<close>
  | Sleep int                    \<comment> \<open>\<open>setTimeout\<close> awaited, milliseconds\<close>
  | SetInterval nat              \<comment> \<open>\<open>setInterval(monitorIpAddress, ms)\<close>\<close>

text \<open>
  \<open>stackRoom\<close> is the number of further nested \<open>appendToLogFile\<close> frames the
  engine's call stack has room for below a call made by the program; a call beyond
  it raises RangeError, as the engine does on stack exhaustion. The clock is read,
  never advanced.
\<close>

record world =
  currentIPv4 :: "string option"
  currentIPv6 :: "string option"
  logDir :: bool
  logFile :: "content option"
  clock :: string
  stackRoom :: nat
  echoReplies :: "echoReply list"
  listReplies :: "listReply list"
  writeReplies :: "writeReply list"
  trace :: "event list"

definition console :: "stream \<Rightarrow> message \<Rightarrow> world \<Rightarrow> world" where
  "console s m w = w\<lparr>trace := trace w @ [Console s m]\<rparr>"

definition emit :: "event \<Rightarrow> world \<Rightarrow> world" where
  "emit e w = w\<lparr>trace := trace w @ [e]\<rparr>"

text \<open>The requests of a trace, and the trace without its console lines.\<close>

fun requests :: "event list \<Rightarrow> request list" where
  "requests [] = []"
| "requests (Request r # es) = r # requests es"
| "requests (e # es) = requests es"

fun isConsole :: "event \<Rightarrow> bool" where
  "isConsole (Console s m) = True"
| "isConsole e = False"

definition effects :: "event list \<Rightarrow> event list" where
  "effects es = filter (\<lambda>e. \<not> isConsole e) es"

subsection \<open>The audit log (lines 50 to 101)\<close>

definition emptyDocument :: json where
  "emptyDocument = JObj [(''metadata'', JObj []), (''logs'', JArr [])]"

datatype exn = TypeError | RangeError | FsError

text \<open>
  \<open>fs.existsSync(LOG_DIRECTORY)\<close>: the directory is there when the world says so, and
  in every world that has the file, which lies in it.
\<close>

definition dirExists :: "world \<Rightarrow> bool" where
  "dirExists w = (logDir w \<or> logFile w \<noteq> None)"

text \<open>
  Lines 50 to 57. The flag \<open>writable\<close> says whether the file system accepts
  \<open>mkdirSync\<close> and \<open>writeFileSync\<close>; when it does not (a read-only or full disk, a
  regular file in the place of the directory) each of them throws. The function has
  no \<open>try\<close>: the exception is its result.
\<close>

definition ensureLogFile :: "bool \<Rightarrow> world \<Rightarrow> exn option \<times> world" where
  "ensureLogFile writable w =
     (if \<not> dirExists w \<and> \<not> writable then (Some FsError, w)
      else
        (let w1 = (if \<not> dirExists w then w\<lparr>logDir := True\<rparr> else w)
         in if logFile w1 = None then
              (if writable then (None, w1\<lparr>logFile := Some (Parsed emptyDocument)\<rparr>)
               else (Some FsError, w1))
            else (None, w1)))"

text \<open>The document line 69 starts from.\<close>

definition freshDocument :: "string \<Rightarrow> json" where
  "freshDocument now = JObj [(''metadata'', JObj [(''lastUpdated'', JStr now)]), (''logs'', JArr [])]"

text \<open>Lines 87 to 91: the entry pushed, \<open>{timestamp, level, ...data}\<close>.\<close>

definition logEntry :: "string \<Rightarrow> string \<Rightarrow> obj \<Rightarrow> json" where
  "logEntry now level data = JObj (spread [(''timestamp'', JStr now), (''level'', JStr level)] data)"

text \<open>
  \<open>logData.logs.push(entry)\<close>: a TypeError unless \<open>logData\<close> is an object whose
  \<open>logs\<close> is an array.
\<close>

fun pushLog :: "json \<Rightarrow> json \<Rightarrow> exn + json" where
  "pushLog (JObj kv) e =
     (case map_of kv ''logs'' of
        Some (JArr xs) \<Rightarrow> Inr (JObj (AList.update ''logs'' (JArr (xs @ [e])) kv))
      | _ \<Rightarrow> Inl TypeError)"
| "pushLog j e = Inl TypeError"

text \<open>
  \<open>logData.metadata.lastUpdated = t\<close>: a TypeError when \<open>metadata\<close> is missing or
  null; on an object the key is set; on an array or a primitive the assignment
  leaves nothing that \<open>JSON.stringify\<close> prints (the module is not in strict mode).
\<close>

fun setLastUpdated :: "json \<Rightarrow> json \<Rightarrow> exn + json" where
  "setLastUpdated (JObj kv) t =
     (case map_of kv ''metadata'' of
        None \<Rightarrow> Inl TypeError
      | Some JNull \<Rightarrow> Inl TypeError
      | Some (JObj m) \<Rightarrow>
          Inr (JObj (AList.update ''metadata'' (JObj (AList.update ''lastUpdated'' t m)) kv))
      | Some v \<Rightarrow> Inr (JObj kv))"
| "setLastUpdated j t = Inl TypeError"

text \<open>
  Lines 86 to 100 once \<open>logData\<close> is known: push, stamp, write; an exception on the
  way, the one of \<open>writeFileSync\<close> on line 95 included, is caught at line 98 and
  reported on the console, the file left as it was.
\<close>

definition writeLog :: "bool \<Rightarrow> json \<Rightarrow> string \<Rightarrow> obj \<Rightarrow> world \<Rightarrow> world" where
  "writeLog writable logData level data w =
     (case pushLog logData (logEntry (clock w) level data) of
        Inl e \<Rightarrow> console Error LogUpdateFailed w
      | Inr d1 \<Rightarrow>
          (case setLastUpdated d1 (JStr (clock w)) of
             Inl e \<Rightarrow> console Error LogUpdateFailed w
           | Inr d2 \<Rightarrow>
               if writable then w\<lparr>logFile := Some (Parsed d2)\<rparr>
               else console Error LogUpdateFailed w))"

text \<open>
  \<open>appendToLogFile\<close> with the room left on the call stack. With no room the call
  itself raises RangeError. The call of \<open>ensureLogFile\<close> on line 66 stands before the
  \<open>try\<close> of line 68, so an exception of it leaves the function. Everything after it
  is inside the \<open>try\<close>: the call at line 80, made from the inner \<open>catch\<close>, re-enters
  the function on the same file, and an exception it raises is caught at line 98.
\<close>

fun appendFrames :: "bool \<Rightarrow> nat \<Rightarrow> string \<Rightarrow> obj \<Rightarrow> world \<Rightarrow> exn option \<times> world" where
  "appendFrames writable 0 level data w = (Some RangeError, w)"
| "appendFrames writable (Suc n) level data w =
     (case ensureLogFile writable w of
        (Some e, w1) \<Rightarrow> (Some e, w1)
      | (None, w1) \<Rightarrow>
          (case logFile w1 of
             None \<Rightarrow> (None, writeLog writable (freshDocument (clock w1)) level data w1)
           | Some (Parsed j) \<Rightarrow> (None, writeLog writable j level data w1)
           | Some (Unparseable err) \<Rightarrow>
               (case appendFrames writable n ''WARN''
                       [(''message'', JMsg ParseFailed), (''error'', JStr err)]
                       (console Warn ParseFailed w1) of
                  (Some e, w2) \<Rightarrow> (None, console Error LogUpdateFailed w2)
                | (None, w2) \<Rightarrow>
                    (None, writeLog writable (freshDocument (clock w1)) level data w2))))"

text \<open>
  A call made by the program, with \<open>stackRoom\<close> frames of room below it and the whole
  outcome: the exception that reaches the caller, if any, and the world.
\<close>

definition appendToLogFileOn :: "bool \<Rightarrow> string \<Rightarrow> obj \<Rightarrow> world \<Rightarrow> exn option \<times> world" where
  "appendToLogFileOn writable level data w = appendFrames writable (Suc (stackRoom w)) level data w"

text \<open>
  The resolver, the record store client, the sync cycle and startup are embedded on
  a file system that accepts writes. There no call of \<open>appendToLogFile\<close> returns an
  exception (lemma \<open>appendFrames_writable\<close> below), so a call is its world.
\<close>

definition appendToLogFile :: "string \<Rightarrow> obj \<Rightarrow> world \<Rightarrow> world" where
  "appendToLogFile level data w = snd (appendToLogFileOn True level data w)"

text \<open>The entries of a well-formed log document, and what well-formed means.\<close>

fun logsOf :: "content option \<Rightarrow> json list option" where
  "logsOf (Some (Parsed (JObj kv))) =
     (case map_of kv ''logs'' of Some (JArr xs) \<Rightarrow> Some xs | _ \<Rightarrow> None)"
| "logsOf c = None"

fun metadataOf :: "content option \<Rightarrow> obj option" where
  "metadataOf (Some (Parsed (JObj kv))) =
     (case map_of kv ''metadata'' of Some (JObj m) \<Rightarrow> Some m | _ \<Rightarrow> None)"
| "metadataOf c = None"

definition wellFormed :: "world \<Rightarrow> bool" where
  "wellFormed w = (logFile w = None \<or> (logsOf (logFile w) \<noteq> None \<and> metadataOf (logFile w) \<noteq> None))"

definition entries :: "world \<Rightarrow> json list" where
  "entries w = (case logsOf (logFile w) of None \<Rightarrow> [] | Some xs \<Rightarrow> xs)"

text \<open>From a well-formed log to a well-formed log that keeps every entry and adds some.\<close>

definition logGrows :: "world \<Rightarrow> world \<Rightarrow> bool" where
  "logGrows w w' = (wellFormed w \<longrightarrow> wellFormed w' \<and> (\<exists>new. entries w' = entries w @ new))"

subsection \<open>Configuration (lines 8 to 29)\<close>

text \<open>
  \<open>process.env\<close> is a map from names to strings. \<open>ttlParsed\<close> and \<open>retryParsed\<close> are
  what \<open>parseInt\<close> returns on lines 15 and 17, \<open>None\<close> for NaN.
\<close>

record config =
  processEnv :: "string \<Rightarrow> string option"
  ttlParsed :: "int option"
  retryParsed :: "int option"

text \<open>\<open>x || d\<close> on a number: NaN and 0 give the default.\<close>

fun orDefault :: "int option \<Rightarrow> int \<Rightarrow> int" where
  "orDefault None d = d"
| "orDefault (Some n) d = (if n = 0 then d else n)"

text \<open>A variable interpolated in a template literal.\<close>

fun str :: "string option \<Rightarrow> string" where
  "str None = ''undefined''"
| "str (Some s) = s"

text \<open>\<open>if (v) { f(v) } else { g }\<close> on a variable holding a string, null or undefined.\<close>

definition whenTruthy :: "string option \<Rightarrow> (string \<Rightarrow> 'a) \<Rightarrow> 'a \<Rightarrow> 'a" where
  "whenTruthy v f g = (case v of None \<Rightarrow> g | Some s \<Rightarrow> if s \<noteq> [] then f s else g)"


definition cloudflareZoneId :: "config \<Rightarrow> string option" where
  "cloudflareZoneId c = processEnv c ''CF_ZONE_ID''"

definition cloudflareApiToken :: "config \<Rightarrow> string option" where
  "cloudflareApiToken c = processEnv c ''CF_API_TOKEN''"

definition cloudflareDnsName :: "config \<Rightarrow> string option" where
  "cloudflareDnsName c = processEnv c ''CF_DNS_NAME''"

definition isCloudflareProxyEnabled :: "config \<Rightarrow> bool" where
  "isCloudflareProxyEnabled c = (processEnv c ''CF_DNS_PROXIED'' = Some ''true'')"

definition cloudflareDnsTtl :: "config \<Rightarrow> int" where
  "cloudflareDnsTtl c = orDefault (ttlParsed c) 3600"

definition isIPv6Enabled :: "config \<Rightarrow> bool" where
  "isIPv6Enabled c = (processEnv c ''CF_ENABLE_IPV6'' = Some ''true'')"

definition ipFetchRetryCount :: "config \<Rightarrow> int" where
  "ipFetchRetryCount c = orDefault (retryParsed c) 3"


definition IPV4_FETCH_URL :: string where
  "IPV4_FETCH_URL = ''https://api.ipify.org?format=json''"

definition IPV6_FETCH_URL :: string where
  "IPV6_FETCH_URL = ''https://api64.ipify.org?format=json''"

subsection \<open>The network\<close>

text \<open>
  Each call takes the next scripted reply of its kind; when the script has run out
  the call is rejected as a transport error.
\<close>

definition networkError :: axiosError where
  "networkError = \<lparr>responseData = None, errMessage = ''Network Error''\<rparr>"

definition nextEcho :: "world \<Rightarrow> echoReply \<times> world" where
  "nextEcho w =
     (case echoReplies w of
        [] \<Rightarrow> (EchoThrew networkError, w)
      | r # rs \<Rightarrow> (r, w\<lparr>echoReplies := rs\<rparr>))"

definition nextList :: "world \<Rightarrow> listReply \<times> world" where
  "nextList w =
     (case listReplies w of
        [] \<Rightarrow> (ListThrew networkError, w)
      | r # rs \<Rightarrow> (r, w\<lparr>listReplies := rs\<rparr>))"

definition nextWrite :: "world \<Rightarrow> writeReply \<times> world" where
  "nextWrite w =
     (case writeReplies w of
        [] \<Rightarrow> (WriteThrew networkError, w)
      | r # rs \<Rightarrow> (r, w\<lparr>writeReplies := rs\<rparr>))"

text \<open>\<open>error.response?.data || error.message\<close>.\<close>

definition errorPayload :: "axiosError \<Rightarrow> json" where
  "errorPayload e =
     (case responseData e of
        None \<Rightarrow> JStr (errMessage e)
      | Some d \<Rightarrow> if truthy d then d else JStr (errMessage e))"

subsection \<open>The record store client (lines 109 to 271)\<close>

definition dnsRecordsUrl :: "config \<Rightarrow> string" where
  "dnsRecordsUrl c =
     ''https://api.cloudflare.com/client/v4/zones/'' @ str (cloudflareZoneId c) @ ''/dns_records''"

text \<open>Line 121: \<open>axios.get(apiUrl, { headers, params })\<close>, no timeout option.\<close>

definition lookupRequest :: "config \<Rightarrow> string \<Rightarrow> request" where
  "lookupRequest c type =
     \<lparr>httpMethod = ''GET'', url = dnsRecordsUrl c,
      headers = [(''Authorization'', ''Bearer '' @ str (cloudflareApiToken c)),
                 (''Content-Type'', ''application/json'')],
      params = optField ''name'' (cloudflareDnsName c) @ [(''type'', JStr type)],
      body = None, timeout = None\<rparr>"

text \<open>Lines 156 to 162 and 228 to 234: the record descriptor sent.\<close>

definition recordData :: "config \<Rightarrow> string \<Rightarrow> string \<Rightarrow> json" where
  "recordData c type ipAddress =
     JObj ([(''type'', JStr type)] @ optField ''name'' (cloudflareDnsName c) @
           [(''content'', JStr ipAddress), (''ttl'', JNum (cloudflareDnsTtl c)),
            (''proxied'', JBool (isCloudflareProxyEnabled c))])"

definition writeHeaders :: "config \<Rightarrow> (string \<times> string) list" where
  "writeHeaders c =
     [(''Content-Type'', ''application/json''),
      (''Authorization'', ''Bearer '' @ str (cloudflareApiToken c))]"

text \<open>Line 165: \<open>axios.post(apiUrl, data, { headers, timeout: 10000 })\<close>.\<close>

definition createRequest :: "config \<Rightarrow> string \<Rightarrow> string \<Rightarrow> request" where
  "createRequest c type ipAddress =
     \<lparr>httpMethod = ''POST'', url = dnsRecordsUrl c, headers = writeHeaders c, params = [],
      body = Some (recordData c type ipAddress), timeout = Some 10000\<rparr>"

text \<open>Line 237: \<open>axios.put(apiUrl, data, { headers, timeout: 10000 })\<close>, on the record's URL.\<close>

definition updateRequest :: "config \<Rightarrow> string \<Rightarrow> string \<Rightarrow> string \<Rightarrow> request" where
  "updateRequest c recordId type ipAddress =
     \<lparr>httpMethod = ''PUT'', url = dnsRecordsUrl c @ ''/'' @ recordId, headers = writeHeaders c,
      params = [], body = Some (recordData c type ipAddress), timeout = Some 10000\<rparr>"

definition fetchDnsRecordId :: "config \<Rightarrow> string \<Rightarrow> world \<Rightarrow> string option \<times> world" where
  "fetchDnsRecordId c type w =
     (case nextList (emit (Request (lookupRequest c type)) w) of
        (Listed success result, w1) \<Rightarrow>
          if success \<and> length result > 0 then (Some (result ! 0), w1) else (None, w1)
      | (ListThrew e, w1) \<Rightarrow>
          (None,
           appendToLogFile ''ERROR''
             ([(''message'', JMsg (LookupFailed type (cloudflareDnsName c))), (''type'', JStr type)] @
              optField ''dnsName'' (cloudflareDnsName c) @ [(''error'', errorPayload e)])
             (console Error (LookupFailed type (cloudflareDnsName c)) w1)))"

definition createDnsRecord :: "config \<Rightarrow> string \<Rightarrow> string \<Rightarrow> world \<Rightarrow> world" where
  "createDnsRecord c type ipAddress w =
     (case nextWrite (emit (Request (createRequest c type ipAddress)) w) of
        (Wrote success data, w1) \<Rightarrow>
          if success then
            appendToLogFile ''INFO''
              [(''message'', JMsg (CreateOk type ipAddress)), (''type'', JStr type),
               (''ipAddress'', JStr ipAddress), (''response'', data)]
              (console Log (CreateOk type ipAddress) w1)
          else
            appendToLogFile ''ERROR''
              [(''message'', JMsg (CreateRejected type)), (''type'', JStr type),
               (''ipAddress'', JStr ipAddress), (''response'', data)]
              (console Error (CreateRejected type) w1)
      | (WriteThrew e, w1) \<Rightarrow>
          appendToLogFile ''ERROR''
            [(''message'', JMsg (CreateThrew type)), (''type'', JStr type),
             (''ipAddress'', JStr ipAddress), (''error'', errorPayload e)]
            (console Error (CreateThrew type) w1))"

text \<open>Lines 223 to 270: the branch of \<open>updateDnsRecord\<close> taken with a record id.\<close>

definition putDnsRecord :: "config \<Rightarrow> string \<Rightarrow> string \<Rightarrow> string \<Rightarrow> world \<Rightarrow> world" where
  "putDnsRecord c recordId type ipAddress w =
     (case nextWrite (emit (Request (updateRequest c recordId type ipAddress)) w) of
        (Wrote success data, w1) \<Rightarrow>
          if success then
            appendToLogFile ''INFO''
              [(''message'', JMsg (UpdateOk type ipAddress)), (''type'', JStr type),
               (''ipAddress'', JStr ipAddress), (''response'', data)]
              (console Log (UpdateOk type ipAddress) w1)
          else
            appendToLogFile ''ERROR''
              [(''message'', JMsg (UpdateRejected type)), (''type'', JStr type),
               (''ipAddress'', JStr ipAddress), (''response'', data)]
              (console Error (UpdateRejected type) w1)
      | (WriteThrew e, w1) \<Rightarrow>
          appendToLogFile ''ERROR''
            [(''message'', JMsg (UpdateThrew type)), (''type'', JStr type),
             (''ipAddress'', JStr ipAddress), (''error'', errorPayload e)]
            (console Error (UpdateThrew type) w1))"

definition updateDnsRecord :: "config \<Rightarrow> string \<Rightarrow> string \<Rightarrow> world \<Rightarrow> world" where
  "updateDnsRecord c type ipAddress w =
     (case fetchDnsRecordId c type w of
        (recordId, w1) \<Rightarrow>
          whenTruthy recordId
            (\<lambda>rid. putDnsRecord c rid type ipAddress w1)
            (createDnsRecord c type ipAddress
               (console Warn (NotFoundCreating type (cloudflareDnsName c))
                  (appendToLogFile ''WARN''
                     ([(''message'', JMsg (NotFoundCreating type (cloudflareDnsName c))),
                       (''type'', JStr type)] @ optField ''dnsName'' (cloudflareDnsName c))
                     w1))))"

subsection \<open>The address resolver (lines 280 to 323)\<close>

definition echoRequest :: "nat \<Rightarrow> request" where
  "echoRequest version =
     \<lparr>httpMethod = ''GET'', url = (if version = 6 then IPV6_FETCH_URL else IPV4_FETCH_URL),
      headers = [], params = [], body = None, timeout = Some 5000\<rparr>"

text \<open>The data of the WARN entry of line 294 and of the ERROR entry of line 306.\<close>

definition fetchFailedData :: "nat \<Rightarrow> int \<Rightarrow> int \<Rightarrow> axiosError \<Rightarrow> obj" where
  "fetchFailedData version attempts retryCount e =
     [(''message'', JMsg (FetchFailed version attempts retryCount)),
      (''ipVersion'', JNum (int version)), (''attempt'', JNum attempts),
      (''retryCount'', JNum retryCount), (''error'', JStr (errMessage e))]"

definition fetchExhaustedData :: "nat \<Rightarrow> int \<Rightarrow> obj" where
  "fetchExhaustedData version retryCount =
     [(''message'', JMsg (FetchExhausted version retryCount)),
      (''ipVersion'', JNum (int version)), (''retryCount'', JNum retryCount)]"

text \<open>The \<open>while\<close> loop of line 284, entered with \<open>attempts\<close> tries made so far.\<close>

function fetchLoop :: "nat \<Rightarrow> int \<Rightarrow> int \<Rightarrow> world \<Rightarrow> string option \<times> world" where
  "fetchLoop version retryCount attempts w =
     (if attempts < retryCount then
        (case nextEcho (emit (Request (echoRequest version)) w) of
           (EchoIp ip, w1) \<Rightarrow> (ip, w1)
         | (EchoThrew e, w1) \<Rightarrow>
             (let w2 = appendToLogFile ''WARN''
                         (fetchFailedData version (attempts + 1) retryCount e)
                         (console Warn (FetchFailed version (attempts + 1) retryCount) w1)
              in if attempts + 1 \<ge> retryCount then
                   (None,
                    appendToLogFile ''ERROR'' (fetchExhaustedData version retryCount)
                      (console Error (FetchExhausted version retryCount) w2))
                 else
                   fetchLoop version retryCount (attempts + 1)
                     (emit (Sleep ((attempts + 1) * 1 * 1000))
                        (console Log (RetryIn ((attempts + 1) * 1)) w2))))
      else (None, w))"
  by pat_completeness auto
termination
  by (relation "measure (\<lambda>(version, retryCount, attempts, w). nat (retryCount - attempts))") auto

definition fetchPublicIpAddress :: "nat \<Rightarrow> int \<Rightarrow> world \<Rightarrow> string option \<times> world" where
  "fetchPublicIpAddress version retryCount w = fetchLoop version retryCount 0 w"

subsection \<open>The sync cycle (lines 329 to 368)\<close>

text \<open>
  The two blocks of \<open>monitorIpAddress\<close>, lines 331 to 346 and 351 to 366, are the same
  code for version 4 with type A and \<open>currentIPv4\<close>, and for version 6 with type AAAA
  and \<open>currentIPv6\<close>; \<open>syncFamily\<close> is that block.
\<close>

definition current :: "nat \<Rightarrow> world \<Rightarrow> string option" where
  "current version w = (if version = 6 then currentIPv6 w else currentIPv4 w)"

definition setCurrent :: "nat \<Rightarrow> string option \<Rightarrow> world \<Rightarrow> world" where
  "setCurrent version v w =
     emit (Assign version v) (if version = 6 then w\<lparr>currentIPv6 := v\<rparr> else w\<lparr>currentIPv4 := v\<rparr>)"

definition recordType :: "nat \<Rightarrow> string" where
  "recordType version = (if version = 6 then ''AAAA'' else ''A'')"

text \<open>The block from the \<open>if\<close> of line 332 on, with the address the resolver returned.\<close>

definition handleResolved :: "config \<Rightarrow> nat \<Rightarrow> string option \<Rightarrow> world \<Rightarrow> world" where
  "handleResolved c version newIP w =
     whenTruthy newIP
       (\<lambda>ip. if Some ip \<noteq> current version w then
               updateDnsRecord c (recordType version) ip (setCurrent version (Some ip) w)
             else
               appendToLogFile ''INFO'' [(''message'', JMsg (NoChange version))]
                 (console Log (NoChange version) w))
       (appendToLogFile ''ERROR''
          [(''message'', JMsg (FetchSkipped version)), (''ipVersion'', JNum (int version))]
          (console Error (FetchSkipped version) w))"

definition syncFamily :: "config \<Rightarrow> nat \<Rightarrow> world \<Rightarrow> world" where
  "syncFamily c version w =
     (case fetchPublicIpAddress version (ipFetchRetryCount c) w of
        (newIP, w1) \<Rightarrow> handleResolved c version newIP w1)"

definition monitorIpAddress :: "config \<Rightarrow> world \<Rightarrow> world" where
  "monitorIpAddress c w =
     (let w1 = syncFamily c 4 w
      in if isIPv6Enabled c then syncFamily c 6 w1 else w1)"

subsection \<open>Startup (lines 35 to 44 and 378 to 415)\<close>

text \<open>\<open>process.exit(1)\<close> is the result \<open>Some 1\<close>: nothing after it runs.\<close>

definition requiredEnvVars :: "string list" where
  "requiredEnvVars = [''CF_ZONE_ID'', ''CF_API_TOKEN'', ''CF_DNS_NAME'']"

definition missingEnvVars :: "config \<Rightarrow> string list" where
  "missingEnvVars c = filter (\<lambda>key. \<not> truthyStr (processEnv c key)) requiredEnvVars"


text \<open>The body of the \<open>for\<close> loop of line 404.\<close>

definition initialUpdate :: "config \<Rightarrow> world \<Rightarrow> string \<Rightarrow> world" where
  "initialUpdate c w dnsType =
     whenTruthy (if dnsType = ''A'' then currentIPv4 w else currentIPv6 w)
       (\<lambda>currentIpAddress. updateDnsRecord c dnsType currentIpAddress w)
       (appendToLogFile ''WARN''
          [(''message'', JMsg (InitialSkipped dnsType)), (''dnsType'', JStr dnsType)]
          (console Warn (InitialSkipped dnsType) w))"



subsection \<open>Example configurations and worlds\<close>

definition homeConfig :: config where
  "homeConfig =
     \<lparr>processEnv = map_of [(''CF_ZONE_ID'', ''zone1''), (''CF_API_TOKEN'', ''secret''),
                           (''CF_DNS_NAME'', ''home.example.com'')],
      ttlParsed = None, retryParsed = None\<rparr>"



text \<open>A first start: no log directory, nothing resolved yet, a silent network.\<close>

definition bootWorld :: world where
  "bootWorld =
     \<lparr>currentIPv4 = None, currentIPv6 = None, logDir = False, logFile = None,
      clock = ''2025-01-01T00:00:00.000Z'', stackRoom = 3, echoReplies = [],
      listReplies = [], writeReplies = [], trace = []\<rparr>"


definition forbiddenError :: axiosError where
  "forbiddenError =
     \<lparr>responseData = Some (JObj [(''success'', JBool False)]),
      errMessage = ''Request failed with status code 403''\<rparr>"

text \<open>The log file of \<open>bootWorld\<close> replaced: by text that does not parse, and by \<open>{}\<close>.\<close>

definition corruptWorld :: world where
  "corruptWorld = bootWorld\<lparr>logDir := True, logFile := Some (Unparseable ''Unexpected token'')\<rparr>"

definition bareWorld :: world where
  "bareWorld = bootWorld\<lparr>logDir := True, logFile := Some (Parsed (JObj []))\<rparr>"

text \<open>The provider's list call is rejected; the provider lists two records.\<close>

definition lookupDownWorld :: world where
  "lookupDownWorld = bootWorld\<lparr>listReplies := [ListThrew forbiddenError]\<rparr>"

definition twoRecordsWorld :: world where
  "twoRecordsWorld = bootWorld\<lparr>listReplies := [Listed True [''rec1'', ''rec2'']]\<rparr>"

text \<open>
  An address is stored already. The echo service then reports a new address twice
  and the provider rejects the update; or reports it once and the update succeeds;
  or the echo service times out three times.
\<close>

definition storedWorld :: world where
  "storedWorld = bootWorld\<lparr>currentIPv4 := Some ''198.51.100.7''\<rparr>"

definition pushFailsWorld :: world where
  "pushFailsWorld =
     storedWorld\<lparr>echoReplies := [EchoIp (Some ''203.0.113.5''), EchoIp (Some ''203.0.113.5'')],
                  listReplies := [Listed True [''rec1'']],
                  writeReplies := [WriteThrew forbiddenError]\<rparr>"

definition pushOkWorld :: world where
  "pushOkWorld =
     storedWorld\<lparr>echoReplies := [EchoIp (Some ''203.0.113.5'')],
                  listReplies := [Listed True [''rec1'']],
                  writeReplies := [Wrote True (JObj [(''success'', JBool True)])]\<rparr>"





section \<open>Properties\<close>

subsection \<open>Traces and fields\<close>

lemma requests_append [simp]: "requests (xs @ ys) = requests xs @ requests ys"
  by (induction xs rule: requests.induct) auto

lemma effects_append [simp]: "effects (xs @ ys) = effects xs @ effects ys"
  by (simp add: effects_def)

lemma effects_simps [simp]:
  "effects [] = []"
  "effects (Console s m # es) = effects es"
  "effects (Request r # es) = Request r # effects es"
  "effects (Assign v x # es) = Assign v x # effects es"
  "effects (Sleep k # es) = Sleep k # effects es"
  "effects (SetInterval i # es) = SetInterval i # effects es"
  by (simp_all add: effects_def)

lemma requests_effects: "requests (effects es) = requests es"
  by (induction es rule: requests.induct) auto

lemma console_fields [simp]:
  "currentIPv4 (console s m w) = currentIPv4 w"
  "currentIPv6 (console s m w) = currentIPv6 w"
  "logDir (console s m w) = logDir w"
  "logFile (console s m w) = logFile w"
  "clock (console s m w) = clock w"
  "stackRoom (console s m w) = stackRoom w"
  "echoReplies (console s m w) = echoReplies w"
  "listReplies (console s m w) = listReplies w"
  "writeReplies (console s m w) = writeReplies w"
  "trace (console s m w) = trace w @ [Console s m]"
  by (simp_all add: console_def)

lemma emit_fields [simp]:
  "currentIPv4 (emit e w) = currentIPv4 w"
  "currentIPv6 (emit e w) = currentIPv6 w"
  "logDir (emit e w) = logDir w"
  "logFile (emit e w) = logFile w"
  "clock (emit e w) = clock w"
  "stackRoom (emit e w) = stackRoom w"
  "echoReplies (emit e w) = echoReplies w"
  "listReplies (emit e w) = listReplies w"
  "writeReplies (emit e w) = writeReplies w"
  "trace (emit e w) = trace w @ [e]"
  by (simp_all add: emit_def)

lemma ensureLogFile_fields [simp]:
  "currentIPv4 (snd (ensureLogFile wr w)) = currentIPv4 w"
  "currentIPv6 (snd (ensureLogFile wr w)) = currentIPv6 w"
  "clock (snd (ensureLogFile wr w)) = clock w"
  "stackRoom (snd (ensureLogFile wr w)) = stackRoom w"
  "echoReplies (snd (ensureLogFile wr w)) = echoReplies w"
  "listReplies (snd (ensureLogFile wr w)) = listReplies w"
  "writeReplies (snd (ensureLogFile wr w)) = writeReplies w"
  "trace (snd (ensureLogFile wr w)) = trace w"
  by (simp_all add: ensureLogFile_def Let_def)

text \<open>On a writable file system the file is there afterwards; a file that is there is left alone.\<close>

lemma ensureLogFile_writable:
  "fst (ensureLogFile True w) = None"
  "logFile (snd (ensureLogFile True w)) =
     (case logFile w of None \<Rightarrow> Some (Parsed emptyDocument) | Some x \<Rightarrow> Some x)"
  by (simp_all add: ensureLogFile_def Let_def split: option.splits)

lemma ensureLogFile_present:
  "logFile w = Some x \<Longrightarrow> ensureLogFile wr w = (None, w)"
  by (simp add: ensureLogFile_def dirExists_def Let_def)

lemma ensureLogFile_unwritable:
  "logFile w = None \<Longrightarrow> ensureLogFile False w = (Some FsError, w)"
  by (simp add: ensureLogFile_def dirExists_def Let_def)

lemma writeLog_fields [simp]:
  "currentIPv4 (writeLog wr j l d w) = currentIPv4 w"
  "currentIPv6 (writeLog wr j l d w) = currentIPv6 w"
  "clock (writeLog wr j l d w) = clock w"
  "stackRoom (writeLog wr j l d w) = stackRoom w"
  "echoReplies (writeLog wr j l d w) = echoReplies w"
  "listReplies (writeLog wr j l d w) = listReplies w"
  "writeReplies (writeLog wr j l d w) = writeReplies w"
  "effects (trace (writeLog wr j l d w)) = effects (trace w)"
  "requests (trace (writeLog wr j l d w)) = requests (trace w)"
  by (simp_all add: writeLog_def split: sum.splits)

lemma writeLog_warnings:
  "filter (\<lambda>e. e = Console Warn ParseFailed) (trace (writeLog wr j l d w)) =
   filter (\<lambda>e. e = Console Warn ParseFailed) (trace w)"
  by (simp add: writeLog_def split: sum.splits)

text \<open>
  Which calls return an exception: exactly those on a file system that refuses
  writes while the log file is missing.
\<close>

lemma appendFrames_raises:
  "fst (appendFrames wr (Suc n) l d w) = (if \<not> wr \<and> logFile w = None then Some FsError else None)"
proof (cases "logFile w")
  case None
  show ?thesis
  proof (cases wr)
    case False
    with None show ?thesis
      by (simp add: ensureLogFile_unwritable)
  next
    case True
    obtain x w1 where e: "ensureLogFile True w = (x, w1)"
      by (cases "ensureLogFile True w")
    with ensureLogFile_writable [of w] have "x = None"
      by simp
    with e True show ?thesis
      by (simp split: option.splits content.splits prod.splits)
  qed
next
  case (Some c)
  then show ?thesis
    by (simp add: ensureLogFile_present split: content.splits option.splits prod.splits)
qed

lemma appendFrames_writable: "fst (appendFrames True (Suc n) l d w) = None"
  by (simp add: appendFrames_raises del: appendFrames.simps)

lemma appendFrames_frame:
  "currentIPv4 (snd (appendFrames wr n l d w)) = currentIPv4 w \<and>
   currentIPv6 (snd (appendFrames wr n l d w)) = currentIPv6 w \<and>
   clock (snd (appendFrames wr n l d w)) = clock w \<and>
   stackRoom (snd (appendFrames wr n l d w)) = stackRoom w \<and>
   echoReplies (snd (appendFrames wr n l d w)) = echoReplies w \<and>
   listReplies (snd (appendFrames wr n l d w)) = listReplies w \<and>
   writeReplies (snd (appendFrames wr n l d w)) = writeReplies w \<and>
   effects (trace (snd (appendFrames wr n l d w))) = effects (trace w) \<and>
   requests (trace (snd (appendFrames wr n l d w))) = requests (trace w)"
proof (induction n arbitrary: l d w)
  case 0
  show ?case by simp
next
  case (Suc n)
  obtain x w1 where e: "ensureLogFile wr w = (x, w1)"
    by (cases "ensureLogFile wr w")
  have w1: "currentIPv4 w1 = currentIPv4 w" "currentIPv6 w1 = currentIPv6 w"
    "clock w1 = clock w" "stackRoom w1 = stackRoom w" "echoReplies w1 = echoReplies w"
    "listReplies w1 = listReplies w" "writeReplies w1 = writeReplies w" "trace w1 = trace w"
    using ensureLogFile_fields [of wr w] by (simp_all add: e)
  show ?case
  proof (cases x)
    case (Some ex)
    with e w1 show ?thesis by simp
  next
    case None
    note ok = this
    show ?thesis
    proof (cases "logFile w1")
      case None
      with e ok w1 show ?thesis by simp
    next
      case (Some c)
      show ?thesis
      proof (cases c)
        case (Parsed j)
        with e ok Some w1 show ?thesis by simp
      next
        case (Unparseable err)
        let ?w1 = "console Warn ParseFailed w1"
        let ?d = "[(''message'', JMsg ParseFailed), (''error'', JStr err)]"
        obtain r w2 where rec: "appendFrames wr n ''WARN'' ?d ?w1 = (r, w2)"
          by (cases "appendFrames wr n ''WARN'' ?d ?w1")
        from Suc.IH [of "''WARN''" ?d ?w1] rec w1
        have ih: "currentIPv4 w2 = currentIPv4 w" "currentIPv6 w2 = currentIPv6 w"
          "clock w2 = clock w" "stackRoom w2 = stackRoom w" "echoReplies w2 = echoReplies w"
          "listReplies w2 = listReplies w" "writeReplies w2 = writeReplies w"
          "effects (trace w2) = effects (trace w)" "requests (trace w2) = requests (trace w)"
          by simp_all
        from e ok Some Unparseable rec ih show ?thesis
          by (cases r) simp_all
      qed
    qed
  qed
qed

lemma appendToLogFile_fields [simp]:
  "currentIPv4 (appendToLogFile l d w) = currentIPv4 w"
  "currentIPv6 (appendToLogFile l d w) = currentIPv6 w"
  "clock (appendToLogFile l d w) = clock w"
  "stackRoom (appendToLogFile l d w) = stackRoom w"
  "echoReplies (appendToLogFile l d w) = echoReplies w"
  "listReplies (appendToLogFile l d w) = listReplies w"
  "writeReplies (appendToLogFile l d w) = writeReplies w"
  "effects (trace (appendToLogFile l d w)) = effects (trace w)"
  "requests (trace (appendToLogFile l d w)) = requests (trace w)"
  using appendFrames_frame [of True "Suc (stackRoom w)" l d w]
  by (simp_all add: appendToLogFile_def appendToLogFileOn_def)



subsection \<open>The audit log\<close>

lemma pushLog_no_logs: "logsOf (Some (Parsed j)) = None \<Longrightarrow> pushLog j e = Inl TypeError"
  by (cases j) (auto split: option.splits json.splits)

lemma writeLog_fresh:
  "logFile (writeLog True (freshDocument now) level data w) =
     Some (Parsed (JObj [(''metadata'', JObj [(''lastUpdated'', JStr (clock w))]),
                         (''logs'', JArr [logEntry (clock w) level data])]))"
  by (simp add: writeLog_def freshDocument_def)



lemma ensureLogFile_wellFormed [simp]:
  "wellFormed (snd (ensureLogFile True w)) = wellFormed w"
  "entries (snd (ensureLogFile True w)) = entries w"
  by (cases "logFile w"; simp add: wellFormed_def entries_def ensureLogFile_writable emptyDocument_def)+

lemma wellFormed_trace [simp]:
  "wellFormed (console s m w) = wellFormed w"
  "wellFormed (emit ev w) = wellFormed w"
  "wellFormed (w\<lparr>echoReplies := er\<rparr>) = wellFormed w"
  "entries (console s m w) = entries w"
  "entries (emit ev w) = entries w"
  "entries (w\<lparr>echoReplies := er\<rparr>) = entries w"
  by (simp_all add: wellFormed_def entries_def)

text \<open>
  Claim C5. A call of \<open>appendToLogFile\<close> returns an exception to its caller exactly
  when the log file is missing and the file system refuses the write that would
  create it: \<open>ensureLogFile\<close> is called on line 66, before the \<open>try\<close> of line 68, and
  what \<open>mkdirSync\<close> or \<open>writeFileSync\<close> throws there leaves the function with nothing
  logged. The claim says that no call raises. Its other half holds: on a file system
  that accepts writes, with room for at least one nested frame on the call stack, a
  call on a file that does not parse ends with a fresh document whose \<open>logs\<close> array
  is exactly the new entry. The nested calls of line 80 read the same file and nest
  until the stack is exhausted; the RangeError is caught in the frame above the
  deepest one, every frame above that writes a one-entry document, the outermost
  last.
\<close>

theorem appendToLogFile_raises_when_file_cannot_be_created:
  "(logFile w = None \<longrightarrow> appendToLogFileOn False level data w = (Some FsError, w)) \<and>
   fst (appendToLogFileOn writable level data w) =
     (if \<not> writable \<and> logFile w = None then Some FsError else None) \<and>
   (logFile w = Some (Unparseable err) \<and> 0 < stackRoom w \<longrightarrow>
      logFile (appendToLogFile level data w) =
        Some (Parsed (JObj [(''metadata'', JObj [(''lastUpdated'', JStr (clock w))]),
                            (''logs'', JArr [logEntry (clock w) level data])])))"
proof (intro conjI impI)
  assume "logFile w = None"
  then show "appendToLogFileOn False level data w = (Some FsError, w)"
    by (simp add: appendToLogFileOn_def ensureLogFile_unwritable)
next
  show "fst (appendToLogFileOn writable level data w) =
     (if \<not> writable \<and> logFile w = None then Some FsError else None)"
    unfolding appendToLogFileOn_def by (rule appendFrames_raises)
next
  assume a: "logFile w = Some (Unparseable err) \<and> 0 < stackRoom w"
  then obtain k where k: "stackRoom w = Suc k"
    by (cases "stackRoom w") auto
  let ?w1 = "console Warn ParseFailed w"
  let ?d = "[(''message'', JMsg ParseFailed), (''error'', JStr err)]"
  obtain r w2 where rec: "appendFrames True (Suc k) ''WARN'' ?d ?w1 = (r, w2)"
    by (cases "appendFrames True (Suc k) ''WARN'' ?d ?w1")
  have r: "r = None"
    using appendFrames_writable [of k "''WARN''" ?d ?w1] rec by simp
  have c: "clock w2 = clock w"
    using appendFrames_frame [of True "Suc k" "''WARN''" ?d ?w1] rec by simp
  have e: "ensureLogFile True w = (None, w)"
    using a by (simp add: ensureLogFile_present)
  have "appendToLogFile level data w = writeLog True (freshDocument (clock w)) level data w2"
    unfolding appendToLogFile_def appendToLogFileOn_def k appendFrames.simps(2) [of True "Suc k"]
    using a e rec r by simp
  then show "logFile (appendToLogFile level data w) =
        Some (Parsed (JObj [(''metadata'', JObj [(''lastUpdated'', JStr (clock w))]),
                            (''logs'', JArr [logEntry (clock w) level data])]))"
    by (simp add: writeLog_fresh c)
qed

theorem appendToLogFile_raises_when_file_cannot_be_created_witness:
  "logFile bootWorld = None \<and>
   appendToLogFileOn False ''INFO'' [(''message'', JMsg (NoChange 4))] bootWorld =
     (Some FsError, bootWorld) \<and>
   fst (appendToLogFileOn True ''INFO'' [(''message'', JMsg (NoChange 4))] bootWorld) = None \<and>
   logFile corruptWorld = Some (Unparseable ''Unexpected token'') \<and>
   0 < stackRoom corruptWorld \<and>
   logFile (appendToLogFile ''INFO'' [(''message'', JMsg (NoChange 4))] corruptWorld) =
     Some (Parsed (JObj
       [(''metadata'', JObj [(''lastUpdated'', JStr ''2025-01-01T00:00:00.000Z'')]),
        (''logs'', JArr [JObj [(''timestamp'', JStr ''2025-01-01T00:00:00.000Z''),
                               (''level'', JStr ''INFO''),
                               (''message'', JMsg (NoChange 4))]])]))"
proof -
  let ?d = "[(''message'', JMsg (NoChange 4))]"
  have n: "logFile bootWorld = None"
    by (simp add: bootWorld_def)
  have u: "logFile corruptWorld = Some (Unparseable ''Unexpected token'') \<and> 0 < stackRoom corruptWorld"
    by (simp add: corruptWorld_def bootWorld_def)
  have cl: "clock corruptWorld = ''2025-01-01T00:00:00.000Z''"
    by (simp add: corruptWorld_def bootWorld_def)
  note t1 = appendToLogFile_raises_when_file_cannot_be_created
              [of bootWorld "''INFO''" ?d False "''Unexpected token''"]
  note t2 = appendToLogFile_raises_when_file_cannot_be_created
              [of bootWorld "''INFO''" ?d True "''Unexpected token''"]
  note t3 = appendToLogFile_raises_when_file_cannot_be_created
              [of corruptWorld "''INFO''" ?d True "''Unexpected token''"]
  have a: "appendToLogFileOn False ''INFO'' ?d bootWorld = (Some FsError, bootWorld)"
    using t1 [THEN conjunct1] n by simp
  have b: "fst (appendToLogFileOn True ''INFO'' ?d bootWorld) = None"
    using t2 [THEN conjunct2, THEN conjunct1] by simp
  have c: "logFile (appendToLogFile ''INFO'' ?d corruptWorld) =
     Some (Parsed (JObj
       [(''metadata'', JObj [(''lastUpdated'', JStr ''2025-01-01T00:00:00.000Z'')]),
        (''logs'', JArr [JObj [(''timestamp'', JStr ''2025-01-01T00:00:00.000Z''),
                               (''level'', JStr ''INFO''),
                               (''message'', JMsg (NoChange 4))]])]))"
    using t3 [THEN conjunct2, THEN conjunct2, rule_format, OF u]
    by (simp add: cl logEntry_def spread_def)
  from n a b u c show ?thesis
    by simp
qed

text \<open>
  On an unparseable file every frame the stack has room for is entered: each prints
  the parse warning of line 78 once before it calls line 80.
\<close>

lemma appendFrames_unparseable_nesting:
  "logFile w = Some (Unparseable err) \<Longrightarrow>
   length (filter (\<lambda>e. e = Console Warn ParseFailed) (trace (snd (appendFrames wr n l d w)))) =
   length (filter (\<lambda>e. e = Console Warn ParseFailed) (trace w)) + n"
proof (induction n arbitrary: l d w)
  case 0
  show ?case by simp
next
  case (Suc n)
  let ?w1 = "console Warn ParseFailed w"
  let ?d = "[(''message'', JMsg ParseFailed), (''error'', JStr err)]"
  have e: "ensureLogFile wr w = (None, w)"
    using Suc.prems by (simp add: ensureLogFile_present)
  have f1: "logFile ?w1 = Some (Unparseable err)"
    using Suc.prems by simp
  obtain r w2 where rec: "appendFrames wr n ''WARN'' ?d ?w1 = (r, w2)"
    by (cases "appendFrames wr n ''WARN'' ?d ?w1")
  from Suc.IH [OF f1, of "''WARN''" ?d] rec
  have ih: "length (filter (\<lambda>e. e = Console Warn ParseFailed) (trace w2)) =
            length (filter (\<lambda>e. e = Console Warn ParseFailed) (trace w)) + Suc n"
    by simp
  show ?case
    using Suc.prems e rec ih by (cases r) (simp_all add: writeLog_warnings)
qed

text \<open>
  Claim C10. When the log file parses but the document has no \<open>logs\<close> array (the
  document \<open>{}\<close>, say), an append returns no exception, whatever the file system does,
  reports the failure on the console, and leaves the file as it was: the new entry is
  not persisted and no fresh document is substituted.
\<close>

theorem appendToLogFile_without_logs:
  assumes "logFile w = Some (Parsed j)" and "logsOf (Some (Parsed j)) = None"
  shows "fst (appendToLogFileOn writable level data w) = None \<and>
         logFile (snd (appendToLogFileOn writable level data w)) = Some (Parsed j) \<and>
         trace (snd (appendToLogFileOn writable level data w)) =
           trace w @ [Console Error LogUpdateFailed] \<and>
         logFile (appendToLogFile level data w) = Some (Parsed j) \<and>
         trace (appendToLogFile level data w) = trace w @ [Console Error LogUpdateFailed]"
proof -
  have "\<And>wr. appendToLogFileOn wr level data w = (None, console Error LogUpdateFailed w)"
    using assms(1) pushLog_no_logs [OF assms(2)]
    by (simp add: appendToLogFileOn_def ensureLogFile_present writeLog_def)
  with assms(1) show ?thesis
    by (simp add: appendToLogFile_def)
qed

theorem appendToLogFile_without_logs_witness:
  "logFile bareWorld = Some (Parsed (JObj [])) \<and>
   logsOf (Some (Parsed (JObj []))) = None \<and>
   fst (appendToLogFileOn False ''INFO'' [(''message'', JMsg (NoChange 4))] bareWorld) = None \<and>
   logFile (appendToLogFile ''INFO'' [(''message'', JMsg (NoChange 4))] bareWorld) =
     Some (Parsed (JObj [])) \<and>
   trace (appendToLogFile ''INFO'' [(''message'', JMsg (NoChange 4))] bareWorld) =
     [Console Error LogUpdateFailed]"
proof -
  have f: "logFile bareWorld = Some (Parsed (JObj []))"
    by (simp add: bareWorld_def)
  have l: "logsOf (Some (Parsed (JObj []))) = None"
    by simp
  have t: "trace bareWorld = []"
    by (simp add: bareWorld_def bootWorld_def)
  show ?thesis
    using appendToLogFile_without_logs
            [OF f l, of False "''INFO''" "[(''message'', JMsg (NoChange 4))]"] f t
    by simp
qed

subsection \<open>The record store client\<close>

lemma nextList_fields [simp]:
  "currentIPv4 (snd (nextList w)) = currentIPv4 w"
  "currentIPv6 (snd (nextList w)) = currentIPv6 w"
  "logDir (snd (nextList w)) = logDir w"
  "logFile (snd (nextList w)) = logFile w"
  "clock (snd (nextList w)) = clock w"
  "stackRoom (snd (nextList w)) = stackRoom w"
  "echoReplies (snd (nextList w)) = echoReplies w"
  "listReplies (snd (nextList w)) = tl (listReplies w)"
  "writeReplies (snd (nextList w)) = writeReplies w"
  "trace (snd (nextList w)) = trace w"
  by (simp_all add: nextList_def split: list.splits)

lemma nextWrite_fields [simp]:
  "currentIPv4 (snd (nextWrite w)) = currentIPv4 w"
  "currentIPv6 (snd (nextWrite w)) = currentIPv6 w"
  "logDir (snd (nextWrite w)) = logDir w"
  "logFile (snd (nextWrite w)) = logFile w"
  "clock (snd (nextWrite w)) = clock w"
  "stackRoom (snd (nextWrite w)) = stackRoom w"
  "echoReplies (snd (nextWrite w)) = echoReplies w"
  "listReplies (snd (nextWrite w)) = listReplies w"
  "writeReplies (snd (nextWrite w)) = tl (writeReplies w)"
  "trace (snd (nextWrite w)) = trace w"
  by (simp_all add: nextWrite_def split: list.splits)

lemma fetchDnsRecordId_fields [simp]:
  "currentIPv4 (snd (fetchDnsRecordId c t w)) = currentIPv4 w"
  "currentIPv6 (snd (fetchDnsRecordId c t w)) = currentIPv6 w"
  "clock (snd (fetchDnsRecordId c t w)) = clock w"
  "stackRoom (snd (fetchDnsRecordId c t w)) = stackRoom w"
  "echoReplies (snd (fetchDnsRecordId c t w)) = echoReplies w"
  "listReplies (snd (fetchDnsRecordId c t w)) = tl (listReplies w)"
  "writeReplies (snd (fetchDnsRecordId c t w)) = writeReplies w"
  "effects (trace (snd (fetchDnsRecordId c t w))) = effects (trace w) @ [Request (lookupRequest c t)]"
  "requests (trace (snd (fetchDnsRecordId c t w))) = requests (trace w) @ [lookupRequest c t]"
proof -
  let ?w0 = "emit (Request (lookupRequest c t)) w"
  obtain r w1 where n: "nextList ?w0 = (r, w1)"
    by (cases "nextList ?w0")
  have w1: "currentIPv4 w1 = currentIPv4 w" "currentIPv6 w1 = currentIPv6 w"
    "logDir w1 = logDir w" "logFile w1 = logFile w" "clock w1 = clock w"
    "stackRoom w1 = stackRoom w" "echoReplies w1 = echoReplies w"
    "listReplies w1 = tl (listReplies w)" "writeReplies w1 = writeReplies w"
    "trace w1 = trace w @ [Request (lookupRequest c t)]"
    using nextList_fields [of ?w0] by (simp_all add: n)
  show "currentIPv4 (snd (fetchDnsRecordId c t w)) = currentIPv4 w"
    "currentIPv6 (snd (fetchDnsRecordId c t w)) = currentIPv6 w"
    "clock (snd (fetchDnsRecordId c t w)) = clock w"
    "stackRoom (snd (fetchDnsRecordId c t w)) = stackRoom w"
    "echoReplies (snd (fetchDnsRecordId c t w)) = echoReplies w"
    "listReplies (snd (fetchDnsRecordId c t w)) = tl (listReplies w)"
    "writeReplies (snd (fetchDnsRecordId c t w)) = writeReplies w"
    "effects (trace (snd (fetchDnsRecordId c t w))) = effects (trace w) @ [Request (lookupRequest c t)]"
    "requests (trace (snd (fetchDnsRecordId c t w))) = requests (trace w) @ [lookupRequest c t]"
    by (cases r; simp add: fetchDnsRecordId_def n w1)+
qed

text \<open>What the lookup returns, read off the next scripted list reply.\<close>

lemma fetchDnsRecordId_found:
  "listReplies w = Listed True (rid # others) # rest \<Longrightarrow> fst (fetchDnsRecordId c t w) = Some rid"
  by (simp add: fetchDnsRecordId_def nextList_def emit_def)

lemma fetchDnsRecordId_none:
  "\<not> (\<exists>rid others rest. listReplies w = Listed True (rid # others) # rest) \<Longrightarrow>
   fst (fetchDnsRecordId c t w) = None"
proof (cases "listReplies w")
  case Nil
  then show ?thesis
    by (simp add: fetchDnsRecordId_def nextList_def emit_def)
next
  case (Cons r rest)
  assume a: "\<not> (\<exists>rid others rest. listReplies w = Listed True (rid # others) # rest)"
  show ?thesis
  proof (cases r)
    case (Listed ok ids)
    with Cons a show ?thesis
      by (cases ids) (auto simp: fetchDnsRecordId_def nextList_def emit_def)
  next
    case (ListThrew e)
    with Cons show ?thesis
      by (simp add: fetchDnsRecordId_def nextList_def emit_def)
  qed
qed

lemma createDnsRecord_fields [simp]:
  "currentIPv4 (createDnsRecord c t ip w) = currentIPv4 w"
  "currentIPv6 (createDnsRecord c t ip w) = currentIPv6 w"
  "clock (createDnsRecord c t ip w) = clock w"
  "stackRoom (createDnsRecord c t ip w) = stackRoom w"
  "echoReplies (createDnsRecord c t ip w) = echoReplies w"
  "listReplies (createDnsRecord c t ip w) = listReplies w"
  "writeReplies (createDnsRecord c t ip w) = tl (writeReplies w)"
  "effects (trace (createDnsRecord c t ip w)) = effects (trace w) @ [Request (createRequest c t ip)]"
  "requests (trace (createDnsRecord c t ip w)) = requests (trace w) @ [createRequest c t ip]"
proof -
  let ?w0 = "emit (Request (createRequest c t ip)) w"
  obtain r w1 where n: "nextWrite ?w0 = (r, w1)"
    by (cases "nextWrite ?w0")
  have w1: "currentIPv4 w1 = currentIPv4 w" "currentIPv6 w1 = currentIPv6 w"
    "logDir w1 = logDir w" "logFile w1 = logFile w" "clock w1 = clock w"
    "stackRoom w1 = stackRoom w" "echoReplies w1 = echoReplies w"
    "listReplies w1 = listReplies w" "writeReplies w1 = tl (writeReplies w)"
    "trace w1 = trace w @ [Request (createRequest c t ip)]"
    using nextWrite_fields [of ?w0] by (simp_all add: n)
  show "currentIPv4 (createDnsRecord c t ip w) = currentIPv4 w"
    "currentIPv6 (createDnsRecord c t ip w) = currentIPv6 w"
    "clock (createDnsRecord c t ip w) = clock w"
    "stackRoom (createDnsRecord c t ip w) = stackRoom w"
    "echoReplies (createDnsRecord c t ip w) = echoReplies w"
    "listReplies (createDnsRecord c t ip w) = listReplies w"
    "writeReplies (createDnsRecord c t ip w) = tl (writeReplies w)"
    "effects (trace (createDnsRecord c t ip w)) = effects (trace w) @ [Request (createRequest c t ip)]"
    "requests (trace (createDnsRecord c t ip w)) = requests (trace w) @ [createRequest c t ip]"
    by (cases r; simp add: createDnsRecord_def n w1)+
qed

lemma putDnsRecord_fields [simp]:
  "currentIPv4 (putDnsRecord c rid t ip w) = currentIPv4 w"
  "currentIPv6 (putDnsRecord c rid t ip w) = currentIPv6 w"
  "clock (putDnsRecord c rid t ip w) = clock w"
  "stackRoom (putDnsRecord c rid t ip w) = stackRoom w"
  "echoReplies (putDnsRecord c rid t ip w) = echoReplies w"
  "listReplies (putDnsRecord c rid t ip w) = listReplies w"
  "writeReplies (putDnsRecord c rid t ip w) = tl (writeReplies w)"
  "effects (trace (putDnsRecord c rid t ip w)) = effects (trace w) @ [Request (updateRequest c rid t ip)]"
  "requests (trace (putDnsRecord c rid t ip w)) = requests (trace w) @ [updateRequest c rid t ip]"
proof -
  let ?w0 = "emit (Request (updateRequest c rid t ip)) w"
  obtain r w1 where n: "nextWrite ?w0 = (r, w1)"
    by (cases "nextWrite ?w0")
  have w1: "currentIPv4 w1 = currentIPv4 w" "currentIPv6 w1 = currentIPv6 w"
    "logDir w1 = logDir w" "logFile w1 = logFile w" "clock w1 = clock w"
    "stackRoom w1 = stackRoom w" "echoReplies w1 = echoReplies w"
    "listReplies w1 = listReplies w" "writeReplies w1 = tl (writeReplies w)"
    "trace w1 = trace w @ [Request (updateRequest c rid t ip)]"
    using nextWrite_fields [of ?w0] by (simp_all add: n)
  show "currentIPv4 (putDnsRecord c rid t ip w) = currentIPv4 w"
    "currentIPv6 (putDnsRecord c rid t ip w) = currentIPv6 w"
    "clock (putDnsRecord c rid t ip w) = clock w"
    "stackRoom (putDnsRecord c rid t ip w) = stackRoom w"
    "echoReplies (putDnsRecord c rid t ip w) = echoReplies w"
    "listReplies (putDnsRecord c rid t ip w) = listReplies w"
    "writeReplies (putDnsRecord c rid t ip w) = tl (writeReplies w)"
    "effects (trace (putDnsRecord c rid t ip w)) = effects (trace w) @ [Request (updateRequest c rid t ip)]"
    "requests (trace (putDnsRecord c rid t ip w)) = requests (trace w) @ [updateRequest c rid t ip]"
    by (cases r; simp add: putDnsRecord_def n w1)+
qed

text \<open>The second request of an upsert, decided by the id the lookup returned.\<close>

lemma updateDnsRecord_unfold:
  "updateDnsRecord c t ip w =
     whenTruthy (fst (fetchDnsRecordId c t w))
       (\<lambda>rid. putDnsRecord c rid t ip (snd (fetchDnsRecordId c t w)))
       (createDnsRecord c t ip
          (console Warn (NotFoundCreating t (cloudflareDnsName c))
             (appendToLogFile ''WARN''
                ([(''message'', JMsg (NotFoundCreating t (cloudflareDnsName c))), (''type'', JStr t)] @
                 optField ''dnsName'' (cloudflareDnsName c))
                (snd (fetchDnsRecordId c t w)))))"
  by (simp add: updateDnsRecord_def split: prod.splits)

lemma updateDnsRecord_fields [simp]:
  "currentIPv4 (updateDnsRecord c t ip w) = currentIPv4 w"
  "currentIPv6 (updateDnsRecord c t ip w) = currentIPv6 w"
  "clock (updateDnsRecord c t ip w) = clock w"
  "stackRoom (updateDnsRecord c t ip w) = stackRoom w"
  "echoReplies (updateDnsRecord c t ip w) = echoReplies w"
  "listReplies (updateDnsRecord c t ip w) = tl (listReplies w)"
  "writeReplies (updateDnsRecord c t ip w) = tl (writeReplies w)"
  by (simp_all add: updateDnsRecord_unfold whenTruthy_def split: option.splits)

lemma updateDnsRecord_effects:
  "effects (trace (updateDnsRecord c t ip w)) =
     effects (trace w) @
     [Request (lookupRequest c t),
      Request (whenTruthy (fst (fetchDnsRecordId c t w))
                 (\<lambda>rid. updateRequest c rid t ip) (createRequest c t ip))]"
  by (simp add: updateDnsRecord_unfold whenTruthy_def split: option.splits)

lemma updateDnsRecord_requests:
  "requests (trace (updateDnsRecord c t ip w)) =
     requests (trace w) @
     [lookupRequest c t,
      whenTruthy (fst (fetchDnsRecordId c t w))
        (\<lambda>rid. updateRequest c rid t ip) (createRequest c t ip)]"
  using updateDnsRecord_effects [of c t ip w, THEN arg_cong, of requests]
  by (simp add: requests_effects)

text \<open>
  Claim C4, amended. An upsert first issues the lookup by name and type. When the
  reply reports success and lists records, the id of the first one is used, and if
  that id is not empty the second request is a PUT of the whole record (new address,
  configured ttl and proxied flag) on that record. In every other case, which is
  zero records, a reply without success, an empty first id, or a lookup that threw,
  the second request is the create call.
\<close>

theorem upsert_lookup_then_write:
  "(listReplies w = Listed True (rid # others) # rest \<and> rid \<noteq> [] \<longrightarrow>
      requests (trace (updateDnsRecord c type ip w)) =
        requests (trace w) @ [lookupRequest c type, updateRequest c rid type ip]) \<and>
   (\<not> (\<exists>rid others rest. listReplies w = Listed True (rid # others) # rest \<and> rid \<noteq> []) \<longrightarrow>
      requests (trace (updateDnsRecord c type ip w)) =
        requests (trace w) @ [lookupRequest c type, createRequest c type ip])"
proof (intro conjI impI)
  assume "listReplies w = Listed True (rid # others) # rest \<and> rid \<noteq> []"
  then show "requests (trace (updateDnsRecord c type ip w)) =
        requests (trace w) @ [lookupRequest c type, updateRequest c rid type ip]"
    by (simp add: updateDnsRecord_requests fetchDnsRecordId_found whenTruthy_def)
next
  assume a: "\<not> (\<exists>rid others rest. listReplies w = Listed True (rid # others) # rest \<and> rid \<noteq> [])"
  have "\<not> truthyStr (fst (fetchDnsRecordId c type w))"
  proof (cases "\<exists>rid others rest. listReplies w = Listed True (rid # others) # rest")
    case True
    then obtain rid others rest where l: "listReplies w = Listed True (rid # others) # rest"
      by blast
    with a have "rid = []" by blast
    with l show ?thesis by (simp add: fetchDnsRecordId_found)
  next
    case False
    then show ?thesis by (simp add: fetchDnsRecordId_none)
  qed
  then show "requests (trace (updateDnsRecord c type ip w)) =
        requests (trace w) @ [lookupRequest c type, createRequest c type ip]"
    by (cases "fst (fetchDnsRecordId c type w)")
       (simp_all add: updateDnsRecord_requests whenTruthy_def)
qed

theorem upsert_lookup_then_write_witness:
  "requests (trace (updateDnsRecord homeConfig ''A'' ''203.0.113.5'' twoRecordsWorld)) =
     [lookupRequest homeConfig ''A'', updateRequest homeConfig ''rec1'' ''A'' ''203.0.113.5''] \<and>
   requests (trace (updateDnsRecord homeConfig ''A'' ''203.0.113.5'' bootWorld)) =
     [lookupRequest homeConfig ''A'', createRequest homeConfig ''A'' ''203.0.113.5'']"
  using upsert_lookup_then_write
          [of twoRecordsWorld "''rec1''" "[''rec2'']" "[]" homeConfig "''A''" "''203.0.113.5''"]
        upsert_lookup_then_write
          [of bootWorld "''rec1''" "[''rec2'']" "[]" homeConfig "''A''" "''203.0.113.5''"]
  by (simp add: twoRecordsWorld_def bootWorld_def)

text \<open>
  Claim C4 as stated fails: the list call is rejected, so it reports no record
  count at all, and the create call is issued all the same.
\<close>

theorem create_after_failed_lookup:
  "listReplies lookupDownWorld = [ListThrew forbiddenError] \<and>
   requests (trace (updateDnsRecord homeConfig ''A'' ''203.0.113.5'' lookupDownWorld)) =
     [lookupRequest homeConfig ''A'', createRequest homeConfig ''A'' ''203.0.113.5'']"
  by (simp add: updateDnsRecord_requests fetchDnsRecordId_none whenTruthy_def
        lookupDownWorld_def bootWorld_def)

text \<open>
  Claim C7. Of the two requests of an upsert, the create or update call carries the
  timeout of 10000 ms, larger than the resolver's 5000 ms, and the lookup call of
  line 121 carries none.
\<close>

theorem lookup_without_timeout:
  "\<exists>r. requests (trace (updateDnsRecord c type ip w)) =
          requests (trace w) @ [lookupRequest c type, r] \<and>
        timeout (lookupRequest c type) = None \<and>
        timeout r = Some 10000 \<and>
        timeout (echoRequest version) = Some 5000"
  by (cases "fst (fetchDnsRecordId c type w)")
     (simp_all add: updateDnsRecord_requests whenTruthy_def lookupRequest_def
        createRequest_def updateRequest_def echoRequest_def)

theorem lookup_without_timeout_witness:
  "requests (trace (updateDnsRecord homeConfig ''A'' ''203.0.113.5'' twoRecordsWorld)) ! 0 =
     lookupRequest homeConfig ''A'' \<and>
   timeout (lookupRequest homeConfig ''A'') = None"
  using lookup_without_timeout [of homeConfig "''A''" "''203.0.113.5''" twoRecordsWorld 4]
  by (auto simp: twoRecordsWorld_def bootWorld_def)

subsection \<open>The address resolver\<close>

declare fetchLoop.simps [simp del]

lemma nextEcho_fields [simp]:
  "currentIPv4 (snd (nextEcho w)) = currentIPv4 w"
  "currentIPv6 (snd (nextEcho w)) = currentIPv6 w"
  "logDir (snd (nextEcho w)) = logDir w"
  "logFile (snd (nextEcho w)) = logFile w"
  "clock (snd (nextEcho w)) = clock w"
  "stackRoom (snd (nextEcho w)) = stackRoom w"
  "echoReplies (snd (nextEcho w)) = tl (echoReplies w)"
  "listReplies (snd (nextEcho w)) = listReplies w"
  "writeReplies (snd (nextEcho w)) = writeReplies w"
  "trace (snd (nextEcho w)) = trace w"
  by (simp_all add: nextEcho_def split: list.splits)

lemma nextEcho_Cons: "echoReplies w = r # rest \<Longrightarrow> nextEcho w = (r, w\<lparr>echoReplies := rest\<rparr>)"
  by (simp add: nextEcho_def)

text \<open>One round of the loop: the attempt succeeds, or fails with tries left, or fails on the last try.\<close>

lemma fetchLoop_ok:
  assumes "a < r" "echoReplies w = EchoIp x # rest"
  shows "fetchLoop v r a w = (x, (emit (Request (echoRequest v)) w)\<lparr>echoReplies := rest\<rparr>)"
  using assms by (subst fetchLoop.simps) (simp add: nextEcho_Cons)



lemma fetchLoop_fields:
  "currentIPv4 (snd (fetchLoop v r a w)) = currentIPv4 w \<and>
   currentIPv6 (snd (fetchLoop v r a w)) = currentIPv6 w \<and>
   clock (snd (fetchLoop v r a w)) = clock w \<and>
   stackRoom (snd (fetchLoop v r a w)) = stackRoom w \<and>
   listReplies (snd (fetchLoop v r a w)) = listReplies w \<and>
   writeReplies (snd (fetchLoop v r a w)) = writeReplies w"
proof (induction v r a w rule: fetchLoop.induct)
  case (1 v r a w)
  let ?w0 = "emit (Request (echoRequest v)) w"
  show ?case
  proof (cases "a < r")
    case False
    then have "fetchLoop v r a w = (None, w)"
      by (subst fetchLoop.simps) simp
    then show ?thesis by simp
  next
    case lt: True
    obtain rep w1 where n: "nextEcho ?w0 = (rep, w1)"
      by (cases "nextEcho ?w0")
    have w1: "currentIPv4 w1 = currentIPv4 w" "currentIPv6 w1 = currentIPv6 w"
      "clock w1 = clock w" "stackRoom w1 = stackRoom w"
      "listReplies w1 = listReplies w" "writeReplies w1 = writeReplies w"
      using nextEcho_fields [of ?w0] by (simp_all add: n)
    show ?thesis
    proof (cases rep)
      case (EchoIp x)
      with lt n have "fetchLoop v r a w = (x, w1)"
        by (subst fetchLoop.simps) simp
      with w1 show ?thesis by simp
    next
      case (EchoThrew e)
      let ?w2 = "appendToLogFile ''WARN'' (fetchFailedData v (a + 1) r e)
                   (console Warn (FetchFailed v (a + 1) r) w1)"
      show ?thesis
      proof (cases "r \<le> a + 1")
        case True
        with lt n EchoThrew
        have "fetchLoop v r a w =
                (None, appendToLogFile ''ERROR'' (fetchExhaustedData v r)
                         (console Error (FetchExhausted v r) ?w2))"
          by (subst fetchLoop.simps) (simp add: Let_def)
        with w1 show ?thesis by simp
      next
        case False
        with lt n EchoThrew
        have "fetchLoop v r a w =
                fetchLoop v r (a + 1)
                  (emit (Sleep ((a + 1) * 1 * 1000)) (console Log (RetryIn ((a + 1) * 1)) ?w2))"
          by (subst fetchLoop.simps) (simp add: Let_def)
        with "1.IH" [OF lt n [symmetric] EchoThrew refl False] w1
        show ?thesis by simp
      qed
    qed
  qed
qed

lemma fetchPublicIpAddress_fields [simp]:
  "currentIPv4 (snd (fetchPublicIpAddress v r w)) = currentIPv4 w"
  "currentIPv6 (snd (fetchPublicIpAddress v r w)) = currentIPv6 w"
  "clock (snd (fetchPublicIpAddress v r w)) = clock w"
  "stackRoom (snd (fetchPublicIpAddress v r w)) = stackRoom w"
  "listReplies (snd (fetchPublicIpAddress v r w)) = listReplies w"
  "writeReplies (snd (fetchPublicIpAddress v r w)) = writeReplies w"
  using fetchLoop_fields [of v r 0 w] by (simp_all add: fetchPublicIpAddress_def)



subsection \<open>The sync cycle\<close>


lemma handleResolved_same:
  "ip \<noteq> [] \<Longrightarrow> current v w = Some ip \<Longrightarrow>
   handleResolved c v (Some ip) w =
     appendToLogFile ''INFO'' [(''message'', JMsg (NoChange v))] (console Log (NoChange v) w)"
  by (simp add: handleResolved_def whenTruthy_def)

lemma handleResolved_changed:
  "ip \<noteq> [] \<Longrightarrow> Some ip \<noteq> current v w \<Longrightarrow>
   handleResolved c v (Some ip) w =
     updateDnsRecord c (recordType v) ip (setCurrent v (Some ip) w)"
  by (simp add: handleResolved_def whenTruthy_def)

lemma setCurrent_fields [simp]:
  "current v (setCurrent v x w) = x"
  "clock (setCurrent v x w) = clock w"
  "stackRoom (setCurrent v x w) = stackRoom w"
  "logFile (setCurrent v x w) = logFile w"
  "echoReplies (setCurrent v x w) = echoReplies w"
  "listReplies (setCurrent v x w) = listReplies w"
  "writeReplies (setCurrent v x w) = writeReplies w"
  "trace (setCurrent v x w) = trace w @ [Assign v x]"
  by (simp_all add: setCurrent_def current_def)

lemma setCurrent_wellFormed [simp]:
  "wellFormed (setCurrent v x w) = wellFormed w"
  "entries (setCurrent v x w) = entries w"
  by (simp_all add: wellFormed_def entries_def)

lemma setCurrent_other [simp]:
  "currentIPv4 (setCurrent 4 x w) = x"
  "currentIPv6 (setCurrent 4 x w) = currentIPv6 w"
  "currentIPv6 (setCurrent 6 x w) = x"
  "currentIPv4 (setCurrent 6 x w) = currentIPv4 w"
  by (simp_all add: setCurrent_def)

lemma current_preserved [simp]:
  "current v (updateDnsRecord c t ip w) = current v w"
  "current v (appendToLogFile l d w) = current v w"
  "current v (console s m w) = current v w"
  "current v (emit ev w) = current v w"
  "current v (snd (fetchPublicIpAddress u r w)) = current v w"
  by (simp_all add: current_def)

lemma syncFamily_resolved:
  assumes "0 < ipFetchRetryCount c" "echoReplies w = EchoIp x # rest"
  shows "syncFamily c v w =
           handleResolved c v x ((emit (Request (echoRequest v)) w)\<lparr>echoReplies := rest\<rparr>)"
  using assms by (simp add: syncFamily_def fetchPublicIpAddress_def fetchLoop_ok)

lemma syncFamily_unfold:
  "syncFamily c v w =
     handleResolved c v (fst (fetchPublicIpAddress v (ipFetchRetryCount c) w))
       (snd (fetchPublicIpAddress v (ipFetchRetryCount c) w))"
  by (simp add: syncFamily_def split: prod.splits)

lemma monitorIpAddress_v4_only:
  "\<not> isIPv6Enabled c \<Longrightarrow> monitorIpAddress c w = syncFamily c 4 w"
  by (simp add: monitorIpAddress_def)

lemma homeConfig_facts:
  "ipFetchRetryCount homeConfig = 3" "\<not> isIPv6Enabled homeConfig" "missingEnvVars homeConfig = []"
  by (simp_all add: ipFetchRetryCount_def isIPv6Enabled_def missingEnvVars_def
        requiredEnvVars_def homeConfig_def)

lemma recordType_simps [simp]: "recordType 4 = ''A''" "recordType 6 = ''AAAA''"
  by (simp_all add: recordType_def)






text \<open>
  Claim C2, amended. When the block receives a non-empty address different from the
  stored one, the write to the stored address is the first effect, before the lookup
  request and the create or update request of the upsert, and the stored address is
  the new one afterwards whatever the provider replied.
\<close>

theorem state_committed_before_push:
  assumes "ip \<noteq> []" and "Some ip \<noteq> current v w"
  shows "current v (handleResolved c v (Some ip) w) = Some ip \<and>
         (\<exists>r. effects (trace (handleResolved c v (Some ip) w)) =
                 effects (trace w) @
                 [Assign v (Some ip), Request (lookupRequest c (recordType v)), Request r])"
  using assms by (simp add: handleResolved_changed updateDnsRecord_effects)

theorem state_committed_before_push_witness:
  "current 4 (handleResolved homeConfig 4 (Some ''203.0.113.5'') storedWorld) = Some ''203.0.113.5'' \<and>
   (\<exists>r. effects (trace (handleResolved homeConfig 4 (Some ''203.0.113.5'') storedWorld)) =
           [Assign 4 (Some ''203.0.113.5''), Request (lookupRequest homeConfig ''A''), Request r])"
proof -
  have h: "Some ''203.0.113.5'' \<noteq> current 4 storedWorld"
    by (simp add: current_def storedWorld_def)
  have t: "trace storedWorld = []"
    by (simp add: storedWorld_def bootWorld_def)
  from state_committed_before_push [of "''203.0.113.5''" 4 storedWorld homeConfig] h t
  show ?thesis by simp
qed

text \<open>
  Claim C2 as stated fails: in a cycle that detects a change, the write to
  \<open>currentIPv4\<close> comes before the lookup and the update requests of the upsert.
\<close>

theorem state_written_before_requests:
  "effects (trace (monitorIpAddress homeConfig pushOkWorld)) =
     [Request (echoRequest 4), Assign 4 (Some ''203.0.113.5''),
      Request (lookupRequest homeConfig ''A''),
      Request (updateRequest homeConfig ''rec1'' ''A'' ''203.0.113.5'')]"
proof -
  let ?ip = "''203.0.113.5''"
  let ?w1 = "(emit (Request (echoRequest 4)) pushOkWorld)\<lparr>echoReplies := []\<rparr>"
  have r: "0 < ipFetchRetryCount homeConfig"
    by (simp add: homeConfig_facts)
  have e: "echoReplies pushOkWorld = EchoIp (Some ?ip) # []"
    by (simp add: pushOkWorld_def)
  have c: "Some ?ip \<noteq> current 4 ?w1"
    by (simp add: current_def pushOkWorld_def storedWorld_def)
  have first: "monitorIpAddress homeConfig pushOkWorld =
      updateDnsRecord homeConfig ''A'' ?ip (setCurrent 4 (Some ?ip) ?w1)"
    using c by (simp add: monitorIpAddress_v4_only homeConfig_facts
          syncFamily_resolved [OF r e] handleResolved_changed)
  have l: "listReplies (setCurrent 4 (Some ?ip) ?w1) = Listed True (''rec1'' # []) # []"
    by (simp add: pushOkWorld_def)
  have t: "trace pushOkWorld = []"
    by (simp add: pushOkWorld_def storedWorld_def bootWorld_def)
  show ?thesis
    unfolding first
    by (simp add: updateDnsRecord_effects fetchDnsRecordId_found [OF l] whenTruthy_def t)
qed

text \<open>
  Claim C1, amended. In a cycle that resolves an address different from the stored
  one, the stored address is the resolved one when the cycle ends, whatever the
  upsert returned. A later cycle that starts from that stored address and resolves
  the same address sends no request to the provider and consumes no reply of it: a
  failed push is not attempted again until the address changes.
\<close>

theorem failed_push_not_retried:
  assumes "fetchPublicIpAddress v (ipFetchRetryCount c) w = (Some ip, w1)"
    and "ip \<noteq> []" and "Some ip \<noteq> current v w1"
    and "current v w' = current v (syncFamily c v w)"
    and "fetchPublicIpAddress v (ipFetchRetryCount c) w' = (Some ip, w1')"
  shows "current v (syncFamily c v w) = Some ip \<and>
         requests (trace (syncFamily c v w')) = requests (trace w1') \<and>
         listReplies (syncFamily c v w') = listReplies w' \<and>
         writeReplies (syncFamily c v w') = writeReplies w'"
proof -
  have first: "syncFamily c v w = updateDnsRecord c (recordType v) ip (setCurrent v (Some ip) w1)"
    using assms(1-3) by (simp add: syncFamily_unfold handleResolved_changed)
  then have stored: "current v (syncFamily c v w) = Some ip"
    by simp
  have "current v w1' = current v w'"
    using current_preserved(5) [of v v "ipFetchRetryCount c" w'] assms(5) by simp
  with stored assms(4) have same: "current v w1' = Some ip"
    by simp
  have second: "syncFamily c v w' =
      appendToLogFile ''INFO'' [(''message'', JMsg (NoChange v))] (console Log (NoChange v) w1')"
    using assms(2,5) same by (simp add: syncFamily_unfold handleResolved_same)
  have "listReplies w1' = listReplies w'" "writeReplies w1' = writeReplies w'"
    using fetchPublicIpAddress_fields(5,6) [of v "ipFetchRetryCount c" w'] assms(5) by simp_all
  with stored second show ?thesis
    by simp
qed

theorem failed_push_not_retried_witness:
  "writeReplies pushFailsWorld = [WriteThrew forbiddenError] \<and>
   current 4 (syncFamily homeConfig 4 pushFailsWorld) = Some ''203.0.113.5'' \<and>
   requests (trace (syncFamily homeConfig 4 (syncFamily homeConfig 4 pushFailsWorld))) =
     [echoRequest 4, lookupRequest homeConfig ''A'',
      updateRequest homeConfig ''rec1'' ''A'' ''203.0.113.5'', echoRequest 4]"
proof -
  let ?ip = "''203.0.113.5''"
  let ?w1 = "(emit (Request (echoRequest 4)) pushFailsWorld)\<lparr>echoReplies := [EchoIp (Some ?ip)]\<rparr>"
  let ?w' = "syncFamily homeConfig 4 pushFailsWorld"
  let ?w1' = "(emit (Request (echoRequest 4)) ?w')\<lparr>echoReplies := []\<rparr>"
  have h1: "fetchPublicIpAddress 4 (ipFetchRetryCount homeConfig) pushFailsWorld = (Some ?ip, ?w1)"
    by (simp add: fetchPublicIpAddress_def homeConfig_facts fetchLoop_ok pushFailsWorld_def)
  have h2: "?ip \<noteq> []"
    by simp
  have h3: "Some ?ip \<noteq> current 4 ?w1"
    by (simp add: current_def pushFailsWorld_def storedWorld_def)
  have first: "?w' = updateDnsRecord homeConfig ''A'' ?ip (setCurrent 4 (Some ?ip) ?w1)"
    using h1 h3 by (simp add: syncFamily_def handleResolved_changed)
  have e: "echoReplies ?w' = [EchoIp (Some ?ip)]"
    by (simp add: first)
  have h5: "fetchPublicIpAddress 4 (ipFetchRetryCount homeConfig) ?w' = (Some ?ip, ?w1')"
    using e by (simp add: fetchPublicIpAddress_def homeConfig_facts fetchLoop_ok)
  have l: "listReplies (setCurrent 4 (Some ?ip) ?w1) = Listed True (''rec1'' # []) # []"
    by (simp add: pushFailsWorld_def)
  have t: "trace pushFailsWorld = []"
    by (simp add: pushFailsWorld_def storedWorld_def bootWorld_def)
  have q: "requests (trace ?w') =
      [echoRequest 4, lookupRequest homeConfig ''A'', updateRequest homeConfig ''rec1'' ''A'' ?ip]"
    by (simp add: first updateDnsRecord_requests fetchDnsRecordId_found [OF l] whenTruthy_def t)
  have w: "writeReplies pushFailsWorld = [WriteThrew forbiddenError]"
    by (simp add: pushFailsWorld_def)
  from failed_push_not_retried [OF h1 h2 h3 refl h5] q w show ?thesis
    by simp
qed

text \<open>
  Claim C1 as stated fails: the update is rejected, the stored address is the new
  one all the same, and the next cycle, resolving the same address, sends only the
  echo request.
\<close>

theorem failed_push_leaves_no_mismatch:
  "writeReplies pushFailsWorld = [WriteThrew forbiddenError] \<and>
   currentIPv4 pushFailsWorld = Some ''198.51.100.7'' \<and>
   currentIPv4 (monitorIpAddress homeConfig pushFailsWorld) = Some ''203.0.113.5'' \<and>
   requests (trace (monitorIpAddress homeConfig (monitorIpAddress homeConfig pushFailsWorld))) =
     [echoRequest 4, lookupRequest homeConfig ''A'',
      updateRequest homeConfig ''rec1'' ''A'' ''203.0.113.5'', echoRequest 4]"
proof -
  let ?ip = "''203.0.113.5''"
  let ?w1 = "(emit (Request (echoRequest 4)) pushFailsWorld)\<lparr>echoReplies := [EchoIp (Some ?ip)]\<rparr>"
  let ?w' = "updateDnsRecord homeConfig ''A'' ?ip (setCurrent 4 (Some ?ip) ?w1)"
  have r: "0 < ipFetchRetryCount homeConfig"
    by (simp add: homeConfig_facts)
  have e: "echoReplies pushFailsWorld = EchoIp (Some ?ip) # [EchoIp (Some ?ip)]"
    by (simp add: pushFailsWorld_def)
  have c: "Some ?ip \<noteq> current 4 ?w1"
    by (simp add: current_def pushFailsWorld_def storedWorld_def)
  have first: "monitorIpAddress homeConfig pushFailsWorld = ?w'"
    using c by (simp add: monitorIpAddress_v4_only homeConfig_facts
          syncFamily_resolved [OF r e] handleResolved_changed)
  have e': "echoReplies ?w' = EchoIp (Some ?ip) # []"
    by simp
  have c': "current 4 ((emit (Request (echoRequest 4)) ?w')\<lparr>echoReplies := []\<rparr>) = Some ?ip"
    by (simp add: current_def setCurrent_def)
  have second: "monitorIpAddress homeConfig ?w' =
      appendToLogFile ''INFO'' [(''message'', JMsg (NoChange 4))]
        (console Log (NoChange 4) ((emit (Request (echoRequest 4)) ?w')\<lparr>echoReplies := []\<rparr>))"
    using c' by (simp add: monitorIpAddress_v4_only homeConfig_facts
          syncFamily_resolved [OF r e'] handleResolved_same)
  have l: "listReplies (setCurrent 4 (Some ?ip) ?w1) = Listed True (''rec1'' # []) # []"
    by (simp add: pushFailsWorld_def)
  have t: "trace pushFailsWorld = []"
    by (simp add: pushFailsWorld_def storedWorld_def bootWorld_def)
  have q: "requests (trace ?w') =
      [echoRequest 4, lookupRequest homeConfig ''A'', updateRequest homeConfig ''rec1'' ''A'' ?ip]"
    by (simp add: updateDnsRecord_requests fetchDnsRecordId_found [OF l] whenTruthy_def t)
  have s: "currentIPv4 ?w' = Some ?ip"
    by (simp add: setCurrent_def)
  show ?thesis
    unfolding first second using q s
    by (simp add: pushFailsWorld_def storedWorld_def)
qed

subsection \<open>Startup\<close>




text \<open>The loop body of startup: skipped on a falsy address, an upsert otherwise.\<close>

lemma initialUpdate_skip:
  "\<not> truthyStr (if dnsType = ''A'' then currentIPv4 w else currentIPv6 w) \<Longrightarrow>
   initialUpdate c w dnsType =
     appendToLogFile ''WARN''
       [(''message'', JMsg (InitialSkipped dnsType)), (''dnsType'', JStr dnsType)]
       (console Warn (InitialSkipped dnsType) w)"
  by (cases "if dnsType = ''A'' then currentIPv4 w else currentIPv6 w")
     (simp_all add: initialUpdate_def whenTruthy_def)

lemma initialUpdate_go:
  "truthyStr (if dnsType = ''A'' then currentIPv4 w else currentIPv6 w) \<Longrightarrow>
   initialUpdate c w dnsType =
     updateDnsRecord c dnsType (str (if dnsType = ''A'' then currentIPv4 w else currentIPv6 w)) w"
  by (cases "if dnsType = ''A'' then currentIPv4 w else currentIPv6 w")
     (simp_all add: initialUpdate_def whenTruthy_def)

lemma initialUpdate_current [simp]:
  "currentIPv4 (initialUpdate c w t) = currentIPv4 w"
  "currentIPv6 (initialUpdate c w t) = currentIPv6 w"
  by (cases "truthyStr (if t = ''A'' then currentIPv4 w else currentIPv6 w)";
      simp add: initialUpdate_skip initialUpdate_go)+







lemma logGrows_refl [simp]: "logGrows w w"
  by (simp add: logGrows_def)



















end
